theory Spec2Isabelle
  imports Complex_Main "HOL-Library.Sublist"
begin

section \<open>JavaScript values, completions and the platform\<close>

text \<open>
  The session cookie holds whatever \<^verbatim>\<open>JSON.parse\<close> makes of it: the TypeScript
  annotation \<^verbatim>\<open>SessionPayload\<close> is erased at run time and nothing checks the shape.
  So the model works on untyped JavaScript values. \<open>Undefined\<close> is not a JSON value but
  is what reading an absent property gives.
\<close>

datatype js_value =
    Undefined
  | Null
  | Bool bool
  | Num rat
  | Str string
  | Arr "js_value list"
  | Obj "(string \<times> js_value) list"

text \<open>
  What a \<^verbatim>\<open>throw\<close> carries. \<open>NEXT_REDIRECT\<close> is the error that
  \<^verbatim>\<open>redirect(path)\<close> of \<^verbatim>\<open>next/navigation\<close> throws: its return type is
  \<^verbatim>\<open>never\<close>, and \<^verbatim>\<open>verifySession\<close> relies on that (it reads
  \<^verbatim>\<open>session.userId\<close> right after \<^verbatim>\<open>redirect("/login")\<close> on a null session).
  A function's outcome is \<open>Inl\<close> of what it threw or \<open>Inr\<close> of what it returned.
\<close>

datatype js_error =
    SyntaxError
  | TypeError
  | FetchError
  | NEXT_REDIRECT string

text \<open>
  The built-ins the code calls, taken as parameters: \<^verbatim>\<open>JSON.parse\<close> (\<open>None\<close> when it
  throws), \<^verbatim>\<open>JSON.stringify\<close>, \<^verbatim>\<open>Date.parse\<close> on a string (milliseconds since the
  epoch, \<open>None\<close> for NaN), \<^verbatim>\<open>Date.prototype.toISOString\<close>, the string an array or
  object converts to, and \<^verbatim>\<open>process.env.NODE_ENV\<close>.
\<close>

record runtime =
  JSON_parse :: "string \<Rightarrow> js_value option"
  JSON_stringify :: "js_value \<Rightarrow> string"
  Date_parse :: "string \<Rightarrow> int option"
  toISOString :: "int \<Rightarrow> string"
  ToString :: "js_value \<Rightarrow> string"
  NODE_ENV :: string

text \<open>
  \<^verbatim>\<open>v.k\<close>: a TypeError on null and undefined, the own property of an object, and
  undefined otherwise (none of the keys read by this program, \<^verbatim>\<open>expiresAt userId email
  role access_token id\<close>, is inherited from a prototype).
\<close>

definition get_prop :: "js_value \<Rightarrow> string \<Rightarrow> js_error + js_value" where
  "get_prop v k =
     (case v of
        Undefined \<Rightarrow> Inl TypeError
      | Null \<Rightarrow> Inl TypeError
      | Obj kvs \<Rightarrow> (case map_of kvs k of None \<Rightarrow> Inr Undefined | Some x \<Rightarrow> Inr x)
      | _ \<Rightarrow> Inr Undefined)"

text \<open>\<^verbatim>\<open>v?.k\<close>: undefined on null and undefined, \<^verbatim>\<open>v.k\<close> otherwise.\<close>

definition opt_prop :: "js_value \<Rightarrow> string \<Rightarrow> js_value" where
  "opt_prop v k =
     (case v of
        Undefined \<Rightarrow> Undefined
      | Null \<Rightarrow> Undefined
      | Obj kvs \<Rightarrow> (case map_of kvs k of None \<Rightarrow> Undefined | Some x \<Rightarrow> x)
      | _ \<Rightarrow> Undefined)"

text \<open>Truthiness, as \<^verbatim>\<open>!v\<close>, \<^verbatim>\<open>&&\<close> and \<^verbatim>\<open>if\<close> decide it.\<close>

definition truthy :: "js_value \<Rightarrow> bool" where
  "truthy v =
     (case v of
        Undefined \<Rightarrow> False
      | Null \<Rightarrow> False
      | Bool b \<Rightarrow> b
      | Num q \<Rightarrow> q \<noteq> 0
      | Str s \<Rightarrow> s \<noteq> []
      | _ \<Rightarrow> True)"

text \<open>
  The time value of \<^verbatim>\<open>new Date(v)\<close>, \<open>None\<close> for an Invalid Date (NaN). A number is
  clipped to the range of time values and truncated towards zero.
\<close>

definition TimeClip :: "rat \<Rightarrow> int option" where
  "TimeClip q =
     (if \<bar>q\<bar> > 8640000000000000 then None
      else Some (if q < 0 then \<lceil>q\<rceil> else \<lfloor>q\<rfloor>))"

definition new_Date :: "runtime \<Rightarrow> js_value \<Rightarrow> int option" where
  "new_Date rt v =
     (case v of
        Undefined \<Rightarrow> None
      | Null \<Rightarrow> Some 0
      | Bool b \<Rightarrow> Some (if b then 1 else 0)
      | Num q \<Rightarrow> TimeClip q
      | Str s \<Rightarrow> Date_parse rt s
      | _ \<Rightarrow> Date_parse rt (ToString rt v))"

text \<open>
  \<^verbatim>\<open>d < new Date()\<close>: both sides become their time values; a comparison with NaN is
  false.
\<close>

definition date_lt :: "int option \<Rightarrow> int \<Rightarrow> bool" where
  "date_lt d now = (case d of None \<Rightarrow> False | Some t \<Rightarrow> t < now)"

section \<open>Session management: \<^verbatim>\<open>src/app/lib/session.ts\<close>\<close>

record cookie =
  cvalue :: string
  httpOnly :: bool
  secure :: bool
  expires :: int
  sameSite :: string
  cpath :: string

type_synonym cookie_store = "string \<rightharpoonup> cookie"

text \<open>\<^verbatim>\<open>cookieStore.get(name)?.value\<close>\<close>

definition cookie_get :: "cookie_store \<Rightarrow> string \<Rightarrow> string option" where
  "cookie_get jar name = map_option cvalue (jar name)"

text \<open>
  \<^verbatim>\<open>createSession(userId, email, role)\<close>; \<open>now\<close> is \<^verbatim>\<open>Date.now()\<close>. The arguments
  are whatever the caller read from the profile, so they are values, not a number and two
  strings.
\<close>

definition createSession ::
  "runtime \<Rightarrow> int \<Rightarrow> js_value \<Rightarrow> js_value \<Rightarrow> js_value \<Rightarrow> cookie_store \<Rightarrow> cookie_store" where
  "createSession rt now userId email role jar =
     (let expiresAt = now + 7 * 24 * 60 * 60 * 1000;
          session = Obj [(''userId'', userId), (''email'', email), (''role'', role),
                         (''expiresAt'', Str (toISOString rt expiresAt))]
      in jar(''session'' \<mapsto>
           \<lparr>cvalue = JSON_stringify rt session,
            httpOnly = True,
            secure = (NODE_ENV rt = ''production''),
            expires = expiresAt,
            sameSite = ''lax'',
            cpath = ''/''\<rparr>))"

definition deleteSession :: "cookie_store \<Rightarrow> cookie_store" where
  "deleteSession jar = jar(''session'' := None)"

text \<open>The body of the \<^verbatim>\<open>try\<close> block of \<^verbatim>\<open>getSession\<close>.\<close>

definition getSession_try :: "runtime \<Rightarrow> int \<Rightarrow> string \<Rightarrow> js_error + js_value" where
  "getSession_try rt now cookie =
     (case JSON_parse rt cookie of
        None \<Rightarrow> Inl SyntaxError
      | Some session \<Rightarrow>
          (case get_prop session ''expiresAt'' of
             Inl e \<Rightarrow> Inl e
           | Inr expiresAt \<Rightarrow>
               if date_lt (new_Date rt expiresAt) now then Inr Null else Inr session))"

text \<open>
  \<^verbatim>\<open>getSession()\<close>; \<open>now\<close> is the \<^verbatim>\<open>new Date()\<close> of the comparison. \<open>Inr Null\<close>
  is the \<^verbatim>\<open>null\<close> the source returns for "no session".
\<close>

definition getSession :: "runtime \<Rightarrow> int \<Rightarrow> cookie_store \<Rightarrow> js_error + js_value" where
  "getSession rt now jar =
     (case cookie_get jar ''session'' of
        None \<Rightarrow> Inr Null
      | Some cookie \<Rightarrow>
          if cookie = [] then Inr Null
          else (case getSession_try rt now cookie of
                  Inl e \<Rightarrow> Inr Null
                | Inr session \<Rightarrow> Inr session))"

section \<open>Data access layer: \<^verbatim>\<open>src/app/lib/dal.ts\<close>\<close>


text \<open>\<^verbatim>\<open>allowedRoles.includes(v)\<close> for a \<^verbatim>\<open>string[]\<close>: only an equal string is found.\<close>

definition array_includes :: "string list \<Rightarrow> js_value \<Rightarrow> bool" where
  "array_includes xs v = (v \<in> set (map Str xs))"


section \<open>Server actions: \<^verbatim>\<open>src/app/actions/auth.ts\<close>\<close>

text \<open>
  A \<open>char\<close> stands for a code unit below 256; these are the ones \<^verbatim>\<open>\s\<close> matches and
  \<^verbatim>\<open>trim()\<close> strips.
\<close>

definition is_space :: "char \<Rightarrow> bool" where
  "is_space c = (c \<in> {CHR 0x09, CHR 0x0A, CHR 0x0B, CHR 0x0C, CHR 0x0D, CHR 0x20, CHR 0xA0})"

text \<open>A non-empty run of \<^verbatim>\<open>[^\s@]\<close>.\<close>

definition email_part :: "string \<Rightarrow> bool" where
  "email_part s = (s \<noteq> [] \<and> list_all (\<lambda>c. \<not> is_space c \<and> c \<noteq> CHR ''@'') s)"

text \<open>
  \<^verbatim>\<open>/^[^\s@]+@[^\s@]+\.[^\s@]+$/.test(email)\<close>: some \<open>@\<close> at \<open>i\<close> and some dot at
  \<open>j\<close> after it cut the whole string into three such runs.
\<close>

definition isValidEmail :: "string \<Rightarrow> bool" where
  "isValidEmail email =
     list_ex (\<lambda>i. list_ex (\<lambda>j.
         i < j \<and> email ! i = CHR ''@'' \<and> email ! j = CHR ''.''
         \<and> email_part (take i email)
         \<and> email_part (take (j - Suc i) (drop (Suc i) email))
         \<and> email_part (drop (Suc j) email))
       [0..<length email]) [0..<length email]"

definition trim :: "string \<Rightarrow> string" where
  "trim s = rev (dropWhile is_space (rev (dropWhile is_space s)))"

text \<open>
  What \<^verbatim>\<open>fetch\<close> gives: it rejects, or it resolves to a response with its \<^verbatim>\<open>ok\<close> flag
  and what \<^verbatim>\<open>response.json()\<close> resolves to (\<open>None\<close> when that rejects). The identity
  provider is the pair of answers to the two requests the action sends: the login request
  with the submitted email and password, the profile request with the access token.
\<close>

datatype fetch_result = Rejected | Response bool "js_value option"

record provider =
  auth_login :: "string \<Rightarrow> string \<Rightarrow> fetch_result"
  auth_profile :: "js_value \<Rightarrow> fetch_result"

text \<open>The calls a request makes, in order, beside the cookie store they act on.\<close>

datatype call =
    Fetch_login string string
  | Fetch_profile js_value
  | CreateSession js_value js_value js_value
  | DeleteSession
  | Redirect_to string

record world =
  jar :: cookie_store
  calls :: "call list"

definition invoke :: "call \<Rightarrow> world \<Rightarrow> world" where
  "invoke c w = w\<lparr>calls := calls w @ [c]\<rparr>"

text \<open>What the action returns to the form: \<^verbatim>\<open>{ errors }\<close> or \<^verbatim>\<open>{ message }\<close>.\<close>

datatype form_state =
    Errors "string option" "string option"
  | Message string

text \<open>\<^verbatim>\<open>formData.get(name)\<close> is null for an absent field.\<close>

definition email_error :: "string option \<Rightarrow> string option" where
  "email_error email =
     (if (case email of None \<Rightarrow> True | Some e \<Rightarrow> e = [] \<or> \<not> isValidEmail e)
      then Some ''Please enter a valid email address.'' else None)"

definition password_error :: "string option \<Rightarrow> string option" where
  "password_error password =
     (if (case password of None \<Rightarrow> True | Some p \<Rightarrow> p = [] \<or> length (trim p) = 0)
      then Some ''Password is required.'' else None)"

text \<open>The field as a string; \<^verbatim>\<open>login\<close> gets here only with both fields present.\<close>

definition field_text :: "string option \<Rightarrow> string" where
  "field_text x = (case x of None \<Rightarrow> [] | Some s \<Rightarrow> s)"

text \<open>
  The \<^verbatim>\<open>try\<close> block of \<^verbatim>\<open>login\<close>, in three parts. The last one, from
  \<^verbatim>\<open>const user: User = await profileResponse.json()\<close> on: the three property reads,
  \<^verbatim>\<open>createSession\<close>, then \<^verbatim>\<open>redirect("/dashboard")\<close>, which throws.
\<close>

definition login_session ::
  "runtime \<Rightarrow> int \<Rightarrow> js_value \<Rightarrow> world \<Rightarrow> world \<times> (js_error + form_state)" where
  "login_session rt now user w =
     (case get_prop user ''id'' of
        Inl e \<Rightarrow> (w, Inl e)
      | Inr uid \<Rightarrow>
          (case get_prop user ''email'' of
             Inl e \<Rightarrow> (w, Inl e)
           | Inr uemail \<Rightarrow>
               (case get_prop user ''role'' of
                  Inl e \<Rightarrow> (w, Inl e)
                | Inr urole \<Rightarrow>
                    (invoke (Redirect_to ''/dashboard'')
                       (invoke (CreateSession uid uemail urole)
                          (w\<lparr>jar := createSession rt now uid uemail urole (jar w)\<rparr>)),
                     Inl (NEXT_REDIRECT ''/dashboard'')))))"

text \<open>
  The middle part, from \<^verbatim>\<open>const authData: AuthResponse = await loginResponse.json()\<close>
  on: the profile request with the access token, and its \<^verbatim>\<open>ok\<close> check.
\<close>

definition login_profile ::
  "runtime \<Rightarrow> provider \<Rightarrow> int \<Rightarrow> js_value \<Rightarrow> world \<Rightarrow> world \<times> (js_error + form_state)" where
  "login_profile rt idp now authData w =
     (case get_prop authData ''access_token'' of
        Inl e \<Rightarrow> (w, Inl e)
      | Inr token \<Rightarrow>
          (case auth_profile idp token of
             Rejected \<Rightarrow> (invoke (Fetch_profile token) w, Inl FetchError)
           | Response ok body \<Rightarrow>
               if \<not> ok
               then (invoke (Fetch_profile token) w, Inr (Message ''Failed to fetch user profile.''))
               else
                 (case body of
                    None \<Rightarrow> (invoke (Fetch_profile token) w, Inl SyntaxError)
                  | Some user \<Rightarrow> login_session rt now user (invoke (Fetch_profile token) w))))"

text \<open>The first part: the login request and its \<^verbatim>\<open>ok\<close> check.\<close>

definition login_try ::
  "runtime \<Rightarrow> provider \<Rightarrow> int \<Rightarrow> string \<Rightarrow> string \<Rightarrow> world \<Rightarrow> world \<times> (js_error + form_state)" where
  "login_try rt idp now email password w =
     (case auth_login idp email password of
        Rejected \<Rightarrow> (invoke (Fetch_login email password) w, Inl FetchError)
      | Response ok body \<Rightarrow>
          if \<not> ok
          then (invoke (Fetch_login email password) w,
                Inr (Message ''Invalid email or password. Please try again.''))
          else
            (case body of
               None \<Rightarrow> (invoke (Fetch_login email password) w, Inl SyntaxError)
             | Some authData \<Rightarrow>
                 login_profile rt idp now authData (invoke (Fetch_login email password) w)))"

text \<open>
  \<^verbatim>\<open>login(state, formData)\<close>. \<^verbatim>\<open>redirect("/dashboard")\<close> is the last statement
  inside the \<^verbatim>\<open>try\<close> block, so the \<^verbatim>\<open>catch (error)\<close> clause takes whatever the block
  threw, the redirect included, and returns the message.
\<close>

definition login ::
  "runtime \<Rightarrow> provider \<Rightarrow> int \<Rightarrow> string option \<Rightarrow> string option \<Rightarrow> world
     \<Rightarrow> world \<times> (js_error + form_state)" where
  "login rt idp now email password w =
     (let e = email_error email; p = password_error password in
      if e \<noteq> None \<or> p \<noteq> None then (w, Inr (Errors e p))
      else
        (case login_try rt idp now (field_text email) (field_text password) w of
           (w', Inl err) \<Rightarrow> (w', Inr (Message ''An error occurred during login. Please try again.''))
         | (w', Inr r) \<Rightarrow> (w', Inr r)))"

definition logout :: "world \<Rightarrow> world \<times> (js_error + unit)" where
  "logout w =
     (let w1 = invoke DeleteSession (w\<lparr>jar := deleteSession (jar w)\<rparr>);
          w2 = invoke (Redirect_to ''/login'') w1
      in (w2, Inl (NEXT_REDIRECT ''/login'')))"

section \<open>The gatekeeper: \<^verbatim>\<open>middleware.ts\<close>\<close>

record request =
  pathname :: string
  cookies :: "string \<rightharpoonup> string"

text \<open>
  \<^verbatim>\<open>NextResponse.redirect(url)\<close>, with the path and the query parameters of the URL (its
  origin is the request's), or \<^verbatim>\<open>NextResponse.next()\<close>.
\<close>

datatype response = Redirect string "(string \<times> string) list" | Next

definition protectedRoutes :: "string list" where
  "protectedRoutes = [''/dashboard'', ''/admin'']"

definition publicRoutes :: "string list" where
  "publicRoutes = [''/login'', ''/'']"

definition startsWith :: "string \<Rightarrow> string \<Rightarrow> bool" where
  "startsWith path route = prefix route path"

text \<open>The body of the \<^verbatim>\<open>try\<close> block of the middleware.\<close>

definition middleware_try :: "runtime \<Rightarrow> int \<Rightarrow> string \<Rightarrow> js_error + js_value" where
  "middleware_try rt now cookie =
     (case JSON_parse rt cookie of
        None \<Rightarrow> Inl SyntaxError
      | Some session \<Rightarrow>
          (case get_prop session ''expiresAt'' of
             Inl e \<Rightarrow> Inl e
           | Inr expiresAt \<Rightarrow>
               if truthy expiresAt \<and> date_lt (new_Date rt expiresAt) now then Inr Null
               else Inr session))"

text \<open>The \<^verbatim>\<open>session\<close> variable after the \<^verbatim>\<open>if (cookie)\<close> statement.\<close>

definition middleware_session :: "runtime \<Rightarrow> int \<Rightarrow> string option \<Rightarrow> js_error + js_value" where
  "middleware_session rt now cookie =
     (case cookie of
        None \<Rightarrow> Inr Null
      | Some c \<Rightarrow>
          if c = [] then Inr Null
          else (case middleware_try rt now c of
                  Inl e \<Rightarrow> Inr Null
                | Inr session \<Rightarrow> Inr session))"

definition middleware :: "runtime \<Rightarrow> int \<Rightarrow> request \<Rightarrow> js_error + response" where
  "middleware rt now req =
     (let path = pathname req;
          isProtectedRoute = list_ex (\<lambda>route. startsWith path route) protectedRoutes;
          isPublicRoute = (path \<in> set publicRoutes)
      in case middleware_session rt now (cookies req ''session'') of
           Inl e \<Rightarrow> Inl e
         | Inr session \<Rightarrow>
             if isProtectedRoute \<and> \<not> truthy (opt_prop session ''userId'')
             then Inr (Redirect ''/login'' [(''redirect'', path)])
             else if isPublicRoute \<and> path = ''/login'' \<and> truthy (opt_prop session ''userId'')
             then Inr (Redirect ''/dashboard'' [])
             else if startsWith path ''/admin'' \<and> opt_prop session ''role'' \<noteq> Str ''admin''
             then Inr (Redirect ''/dashboard'' [])
             else Inr Next)"

section \<open>The route classification of the specification\<close>

text \<open>
  The specification describes the gatekeeper by a table of path prefixes, each classified
  public, protected or protected for some roles, in which the longest matching prefix
  decides, and by a decision table on the class. These definitions follow that wording;
  the entries are the strings of \<^verbatim>\<open>publicRoutes\<close> and \<^verbatim>\<open>protectedRoutes\<close>, and
  \<^verbatim>\<open>/admin\<close> carries the role of the admin check.
\<close>

datatype route_class = Public | Protected | Protected_roles "string list"

definition route_table :: "(string \<times> route_class) list" where
  "route_table =
     [(''/login'', Public), (''/'', Public),
      (''/dashboard'', Protected), (''/admin'', Protected_roles [''admin''])]"

definition matching_entries :: "(string \<times> route_class) list \<Rightarrow> string \<Rightarrow> (string \<times> route_class) list" where
  "matching_entries table path = filter (\<lambda>entry. prefix (fst entry) path) table"

fun longest_entry :: "(string \<times> route_class) list \<Rightarrow> (string \<times> route_class) option" where
  "longest_entry [] = None"
| "longest_entry (entry # rest) =
     (case longest_entry rest of
        None \<Rightarrow> Some entry
      | Some best \<Rightarrow> if length (fst best) > length (fst entry) then Some best else Some entry)"

text \<open>A path that no entry matches is public.\<close>

definition classify :: "(string \<times> route_class) list \<Rightarrow> string \<Rightarrow> route_class" where
  "classify table path =
     (case longest_entry (matching_entries table path) of
        None \<Rightarrow> Public
      | Some entry \<Rightarrow> snd entry)"

text \<open>
  The decision table: the class, the path, whether a session is present, and its role.
\<close>

definition decide :: "route_class \<Rightarrow> string \<Rightarrow> bool \<Rightarrow> js_value \<Rightarrow> response" where
  "decide cls path has_session role =
     (case cls of
        Public \<Rightarrow>
          if path = ''/login'' \<and> has_session then Redirect ''/dashboard'' [] else Next
      | Protected \<Rightarrow>
          if has_session then Next else Redirect ''/login'' [(''redirect'', path)]
      | Protected_roles roles \<Rightarrow>
          if \<not> has_session then Redirect ''/login'' [(''redirect'', path)]
          else if array_includes roles role then Next
          else Redirect ''/dashboard'' [])"

section \<open>Conditions on a cookie\<close>


text \<open>How many of the calls are a \<^verbatim>\<open>createSession\<close>.\<close>

fun is_write :: "call \<Rightarrow> bool" where
  "is_write (CreateSession uid email role) = True"
| "is_write c = False"

definition session_writes :: "call list \<Rightarrow> nat" where
  "session_writes cs = length (filter is_write cs)"

text \<open>
  A request to the identity provider that did not give a value to go on with: the
  \<^verbatim>\<open>fetch\<close> was rejected, the response is not \<^verbatim>\<open>ok\<close>, its body is no JSON, or
  the body is null (so that reading a property of it throws).
\<close>

definition response_failed :: "fetch_result \<Rightarrow> bool" where
  "response_failed r =
     (case r of
        Rejected \<Rightarrow> True
      | Response ok body \<Rightarrow>
          \<not> ok \<or> (case body of None \<Rightarrow> True | Some v \<Rightarrow> v = Null \<or> v = Undefined))"

text \<open>
  A login attempt in which the credential exchange failed, or it succeeded and the
  profile request sent with its access token failed.
\<close>

definition upstream_failed :: "provider \<Rightarrow> string \<Rightarrow> string \<Rightarrow> bool" where
  "upstream_failed idp email password =
     (response_failed (auth_login idp email password)
      \<or> (case auth_login idp email password of
            Rejected \<Rightarrow> False
          | Response ok body \<Rightarrow>
              (case body of
                 None \<Rightarrow> False
               | Some authData \<Rightarrow>
                   response_failed (auth_profile idp (opt_prop authData ''access_token'')))))"

section \<open>Sample inputs\<close>

text \<open>
  Five cookie values: a complete session, one without \<^verbatim>\<open>expiresAt\<close>, one whose
  \<^verbatim>\<open>expiresAt\<close> is no date, one whose \<^verbatim>\<open>expiresAt\<close> is the number 0 (the epoch),
  and one cut off in the middle.
\<close>

definition token_full :: string where
  \<open>token_full =
     ''{"userId":1,"email":"john@mail.com","role":"customer","expiresAt":"2030-01-01T00:00:00.000Z"}''\<close>

definition token_no_expiry :: string where
  \<open>token_no_expiry = ''{"userId":1,"email":"john@mail.com","role":"admin"}''\<close>

definition token_bad_expiry :: string where
  \<open>token_bad_expiry =
     ''{"userId":1,"email":"john@mail.com","role":"admin","expiresAt":"soon"}''\<close>

definition token_zero_expiry :: string where
  \<open>token_zero_expiry =
     ''{"userId":1,"email":"john@mail.com","role":"admin","expiresAt":0}''\<close>


definition session_full :: js_value where
  "session_full =
     Obj [(''userId'', Num 1), (''email'', Str ''john@mail.com''), (''role'', Str ''customer''),
          (''expiresAt'', Str ''2030-01-01T00:00:00.000Z'')]"

definition session_no_expiry :: js_value where
  "session_no_expiry =
     Obj [(''userId'', Num 1), (''email'', Str ''john@mail.com''), (''role'', Str ''admin'')]"

definition session_bad_expiry :: js_value where
  "session_bad_expiry =
     Obj [(''userId'', Num 1), (''email'', Str ''john@mail.com''), (''role'', Str ''admin''),
          (''expiresAt'', Str ''soon'')]"

definition session_zero_expiry :: js_value where
  "session_zero_expiry =
     Obj [(''userId'', Num 1), (''email'', Str ''john@mail.com''), (''role'', Str ''admin''),
          (''expiresAt'', Num 0)]"

text \<open>
  A platform for the examples, which gives the built-ins their values on the strings and
  instants the examples use: \<^verbatim>\<open>JSON.parse\<close> on the five tokens, \<^verbatim>\<open>Date.parse\<close> on the
  two \<^verbatim>\<open>expiresAt\<close> strings (2030-01-01T00:00:00.000Z is 1893456000000 ms after the
  epoch), \<^verbatim>\<open>toISOString\<close> on that instant and \<^verbatim>\<open>JSON.stringify\<close> on the complete
  session. Elsewhere it answers with a failure or an empty string.
\<close>

definition sample_runtime :: runtime where
  "sample_runtime =
     \<lparr>JSON_parse = (\<lambda>s. if s = token_full then Some session_full
                        else if s = token_no_expiry then Some session_no_expiry
                        else if s = token_bad_expiry then Some session_bad_expiry
                        else if s = token_zero_expiry then Some session_zero_expiry
                        else None),
      JSON_stringify = (\<lambda>v. if v = session_full then token_full else []),
      Date_parse = (\<lambda>s. if s = ''2030-01-01T00:00:00.000Z'' then Some 1893456000000 else None),
      toISOString = (\<lambda>t. if t = 1893456000000 then ''2030-01-01T00:00:00.000Z'' else []),
      ToString = (\<lambda>v. ''[object Object]''),
      NODE_ENV = ''production''\<rparr>"

text \<open>A cookie store that holds one session cookie with the given value.\<close>

definition session_cookie :: "string \<Rightarrow> cookie_store" where
  "session_cookie token =
     [''session'' \<mapsto>
        \<lparr>cvalue = token, httpOnly = True, secure = True, expires = 1893456000000,
         sameSite = ''lax'', cpath = ''/''\<rparr>]"

text \<open>
  The identity provider of the repository's mock handlers: the login request succeeds for
  \<^verbatim>\<open>john@mail.com\<close> with \<^verbatim>\<open>changeme\<close> and is answered with status 401 otherwise; the
  profile request succeeds for the token of that answer.
\<close>

definition handlers :: provider where
  "handlers =
     \<lparr>auth_login = (\<lambda>email password.
        if email = ''john@mail.com'' \<and> password = ''changeme''
        then Response True (Some (Obj [(''access_token'', Str ''mock-access-token-123''),
                                       (''refresh_token'', Str ''mock-refresh-token-456'')]))
        else Response False (Some (Obj [(''message'', Str ''Invalid credentials'')]))),
      auth_profile = (\<lambda>token.
        if token = Str ''mock-access-token-123''
        then Response True (Some (Obj [(''id'', Num 1), (''email'', Str ''john@mail.com''),
                                       (''name'', Str ''John Doe''), (''role'', Str ''customer''),
                                       (''avatar'', Str ''https://api.dicebear.com/7.x/avataaars/svg?seed=John''),
                                       (''password'', Str ''changeme'')]))
        else Response False (Some (Obj [(''message'', Str ''Unauthorized'')])))\<rparr>"

text \<open>A provider that cannot be reached: every request is rejected.\<close>

definition unreachable :: provider where
  "unreachable = \<lparr>auth_login = (\<lambda>email password. Rejected), auth_profile = (\<lambda>token. Rejected)\<rparr>"

definition fresh :: world where
  "fresh = \<lparr>jar = Map.empty, calls = []\<rparr>"

section \<open>Reading properties\<close>

lemma get_prop_Inr: "get_prop v k = Inr x \<Longrightarrow> opt_prop v k = x \<and> v \<noteq> Null \<and> v \<noteq> Undefined"
  by (auto simp: get_prop_def opt_prop_def split: js_value.splits option.splits)

lemma get_prop_Inl: "get_prop v k = Inl e \<Longrightarrow> (v = Null \<or> v = Undefined) \<and> e = TypeError"
  by (auto simp: get_prop_def split: js_value.splits option.splits)

lemma get_prop_opt: "v \<noteq> Null \<Longrightarrow> v \<noteq> Undefined \<Longrightarrow> get_prop v k = Inr (opt_prop v k)"
  by (auto simp: get_prop_def opt_prop_def split: js_value.splits option.splits)

lemma get_prop_null: "get_prop Null k = Inl TypeError" "get_prop Undefined k = Inl TypeError"
  by (simp_all add: get_prop_def)

section \<open>Reading the session\<close>


lemma middleware_session_total: "\<exists>v. middleware_session rt now cookie = Inr v"
  by (simp add: middleware_session_def split: option.split sum.split)



lemma getSession_whole:
  "getSession rt now store = Inr v \<Longrightarrow>
     v = Null \<or> (\<exists>c. cookie_get store ''session'' = Some c \<and> JSON_parse rt c = Some v)"
  by (auto simp: getSession_def getSession_try_def split: option.splits sum.splits if_splits)

lemma middleware_session_whole:
  "middleware_session rt now cookie = Inr v \<Longrightarrow>
     v = Null \<or> (\<exists>c. cookie = Some c \<and> JSON_parse rt c = Some v)"
  by (auto simp: middleware_session_def middleware_try_def split: option.splits sum.splits if_splits)



lemma sample_full:
  "cookie_get (session_cookie token_full) ''session'' = Some token_full"
  "token_full \<noteq> []"
  "JSON_parse sample_runtime token_full = Some session_full"
  "get_prop session_full ''expiresAt'' = Inr (Str ''2030-01-01T00:00:00.000Z'')"
  "new_Date sample_runtime (Str ''2030-01-01T00:00:00.000Z'') = Some 1893456000000"
  "truthy (Str ''2030-01-01T00:00:00.000Z'')"
  by (simp_all add: session_cookie_def cookie_get_def token_full_def sample_runtime_def
        session_full_def get_prop_def new_Date_def truthy_def)


lemma sample_read:
  "getSession sample_runtime 1800000000000 (session_cookie token_full) = Inr session_full"
  "getSession sample_runtime 1900000000000 (session_cookie token_full) = Inr Null"
  "getSession sample_runtime 1800000000000 Map.empty = Inr Null"
  by (simp_all add: getSession_def getSession_try_def cookie_get_def session_cookie_def
        sample_runtime_def token_full_def session_full_def get_prop_def new_Date_def date_lt_def)





text \<open>
  C2, as stated, fails: the complete token expires at 1893456000000 ms, and read at
  exactly that instant it is still returned as the session.
\<close>

theorem session_still_valid_at_expiresAt:
  "new_Date sample_runtime (Str ''2030-01-01T00:00:00.000Z'') = Some 1893456000000
   \<and> getSession sample_runtime 1893456000000 (session_cookie token_full) = Inr session_full
   \<and> getSession sample_runtime 1893456000000 (session_cookie token_full) \<noteq> Inr Null
   \<and> middleware_session sample_runtime 1893456000000 (Some token_full) = Inr session_full"
  by (simp add: getSession_def getSession_try_def middleware_session_def middleware_try_def
        sample_runtime_def session_cookie_def cookie_get_def
        token_full_def session_full_def get_prop_def new_Date_def
        date_lt_def truthy_def)

text \<open>
  C2, amended: for a decoded record \<open>s\<close> whose \<^verbatim>\<open>expiresAt\<close> is the instant \<open>t\<close>,
  \<^verbatim>\<open>getSession\<close> returns the record if and only if \<open>now \<le> t\<close> and null if and only if
  \<open>t < now\<close>: the test is \<^verbatim>\<open>expiresAt < now\<close>, so the session is still valid at
  \<open>now = t\<close> and is "no session" only after it. The decoding in the middleware does the
  same when \<^verbatim>\<open>expiresAt\<close> is truthy.
\<close>

theorem session_valid_until_after_expiresAt:
  assumes "cookie_get store ''session'' = Some c" and "c \<noteq> []"
    and "JSON_parse rt c = Some s" and "get_prop s ''expiresAt'' = Inr e"
    and "new_Date rt e = Some t"
  shows "(getSession rt now store = Inr s \<longleftrightarrow> now \<le> t)
       \<and> (getSession rt now store = Inr Null \<longleftrightarrow> t < now)
       \<and> (truthy e \<longrightarrow>
            (middleware_session rt now (Some c) = Inr s \<longleftrightarrow> now \<le> t)
          \<and> (middleware_session rt now (Some c) = Inr Null \<longleftrightarrow> t < now))"
proof -
  from assms(4) have "s \<noteq> Null" by (simp add: get_prop_Inr)
  with assms show ?thesis
    by (auto simp: getSession_def getSession_try_def middleware_session_def middleware_try_def
          date_lt_def)
qed

theorem session_valid_until_after_expiresAt_witness:
  "getSession sample_runtime 1893456000000 (session_cookie token_full) = Inr session_full
   \<and> getSession sample_runtime 1893456000001 (session_cookie token_full) = Inr Null
   \<and> middleware_session sample_runtime 1893456000000 (Some token_full) = Inr session_full
   \<and> middleware_session sample_runtime 1893456000001 (Some token_full) = Inr Null"
  using session_valid_until_after_expiresAt [OF sample_full(1-5), of 1893456000000]
        session_valid_until_after_expiresAt [OF sample_full(1-5), of 1893456000001]
        sample_full(6)
  by simp

section \<open>Logging in\<close>

lemma session_writes_invoke:
  "session_writes (calls (invoke c w)) = session_writes (calls w) + (if is_write c then 1 else 0)"
  by (simp add: session_writes_def invoke_def)

lemma jar_invoke: "jar (invoke c w) = jar w"
  by (simp add: invoke_def)

lemma calls_invoke: "calls (invoke c w) = calls w @ [c]"
  by (simp add: invoke_def)

lemma login_session_null:
  "user = Null \<or> user = Undefined \<Longrightarrow> login_session rt now user w = (w, Inl TypeError)"
  by (auto simp: login_session_def get_prop_null)

lemma login_session_value:
  "user \<noteq> Null \<Longrightarrow> user \<noteq> Undefined \<Longrightarrow>
   login_session rt now user w =
     (\<lparr>jar = createSession rt now (opt_prop user ''id'') (opt_prop user ''email'')
               (opt_prop user ''role'') (jar w),
       calls = calls w @ [CreateSession (opt_prop user ''id'') (opt_prop user ''email'')
                            (opt_prop user ''role''),
                          Redirect_to ''/dashboard'']\<rparr>,
      Inl (NEXT_REDIRECT ''/dashboard''))"
  by (simp add: login_session_def get_prop_opt invoke_def)

lemma login_profile_failed:
  assumes "authData \<noteq> Null" "authData \<noteq> Undefined"
    and "response_failed (auth_profile idp (opt_prop authData ''access_token''))"
  shows "\<exists>r. login_profile rt idp now authData w =
           (invoke (Fetch_profile (opt_prop authData ''access_token'')) w, r)
         \<and> (r = Inr (Message ''Failed to fetch user profile.'') \<or> (\<exists>e. r = Inl e))"
  using assms
  by (auto simp: login_profile_def get_prop_opt response_failed_def login_session_null
        split: fetch_result.splits option.splits)

lemma login_profile_null:
  "authData = Null \<or> authData = Undefined \<Longrightarrow>
   login_profile rt idp now authData w = (w, Inl TypeError)"
  by (auto simp: login_profile_def get_prop_null)

lemma login_profile_ok:
  assumes "authData \<noteq> Null" "authData \<noteq> Undefined"
    and "auth_profile idp (opt_prop authData ''access_token'') = Response True (Some user)"
    and "user \<noteq> Null" "user \<noteq> Undefined"
  shows "login_profile rt idp now authData w =
     (\<lparr>jar = createSession rt now (opt_prop user ''id'') (opt_prop user ''email'')
               (opt_prop user ''role'') (jar w),
       calls = calls w @ [Fetch_profile (opt_prop authData ''access_token''),
                          CreateSession (opt_prop user ''id'') (opt_prop user ''email'')
                            (opt_prop user ''role''),
                          Redirect_to ''/dashboard'']\<rparr>,
      Inl (NEXT_REDIRECT ''/dashboard''))"
  using assms
  by (simp add: login_profile_def get_prop_opt login_session_value invoke_def)


lemma login_try_failed:
  assumes "upstream_failed idp email password"
  shows "\<exists>w' r. login_try rt idp now email password w = (w', r)
           \<and> jar w' = jar w \<and> session_writes (calls w') = session_writes (calls w)
           \<and> (r = Inr (Message ''Invalid email or password. Please try again.'')
              \<or> r = Inr (Message ''Failed to fetch user profile.'')
              \<or> (\<exists>e. r = Inl e))"
proof (cases "auth_login idp email password")
  case Rejected
  then show ?thesis
    by (simp add: login_try_def jar_invoke session_writes_invoke)
next
  case (Response ok body)
  show ?thesis
  proof (cases "ok \<and> body \<noteq> None \<and> body \<noteq> Some Null \<and> body \<noteq> Some Undefined")
    case False
    with Response show ?thesis
      by (auto simp: login_try_def jar_invoke session_writes_invoke login_profile_null
            split: option.splits)
  next
    case True
    then obtain authData where a: "body = Some authData" "authData \<noteq> Null" "authData \<noteq> Undefined" "ok"
      by auto
    with assms Response
    have f: "response_failed (auth_profile idp (opt_prop authData ''access_token''))"
      by (simp add: upstream_failed_def response_failed_def)
    from login_profile_failed [OF a(2,3) f, of rt now "invoke (Fetch_login email password) w"]
    show ?thesis using Response a
      by (auto simp: login_try_def jar_invoke session_writes_invoke)
  qed
qed

lemma login_try_ok:
  assumes "\<not> upstream_failed idp email password"
  shows "\<exists>authData user.
           auth_login idp email password = Response True (Some authData)
         \<and> auth_profile idp (opt_prop authData ''access_token'') = Response True (Some user)
         \<and> login_try rt idp now email password w =
             (\<lparr>jar = createSession rt now (opt_prop user ''id'') (opt_prop user ''email'')
                       (opt_prop user ''role'') (jar w),
               calls = calls w @ [Fetch_login email password,
                                  Fetch_profile (opt_prop authData ''access_token''),
                                  CreateSession (opt_prop user ''id'') (opt_prop user ''email'')
                                    (opt_prop user ''role''),
                                  Redirect_to ''/dashboard'']\<rparr>,
              Inl (NEXT_REDIRECT ''/dashboard''))"
proof -
  from assms obtain authData where
    a: "auth_login idp email password = Response True (Some authData)"
       "authData \<noteq> Null" "authData \<noteq> Undefined"
    by (auto simp: upstream_failed_def response_failed_def split: fetch_result.splits option.splits)
  with assms have "\<not> response_failed (auth_profile idp (opt_prop authData ''access_token''))"
    by (simp add: upstream_failed_def)
  then obtain user where
    u: "auth_profile idp (opt_prop authData ''access_token'') = Response True (Some user)"
       "user \<noteq> Null" "user \<noteq> Undefined"
    by (auto simp: response_failed_def split: fetch_result.splits option.splits)
  from login_profile_ok [OF a(2,3) u, of rt now "invoke (Fetch_login email password) w"]
  have "login_try rt idp now email password w =
             (\<lparr>jar = createSession rt now (opt_prop user ''id'') (opt_prop user ''email'')
                       (opt_prop user ''role'') (jar w),
               calls = calls w @ [Fetch_login email password,
                                  Fetch_profile (opt_prop authData ''access_token''),
                                  CreateSession (opt_prop user ''id'') (opt_prop user ''email'')
                                    (opt_prop user ''role''),
                                  Redirect_to ''/dashboard'']\<rparr>,
              Inl (NEXT_REDIRECT ''/dashboard''))"
    using a by (simp add: login_try_def invoke_def)
  with a(1) u(1) show ?thesis by blast
qed


lemma login_valid:
  assumes "email_error (Some email) = None" "password_error (Some password) = None"
  shows "login rt idp now (Some email) (Some password) w =
         (case login_try rt idp now email password w of
            (w', Inl err) \<Rightarrow> (w', Inr (Message ''An error occurred during login. Please try again.''))
          | (w', Inr r) \<Rightarrow> (w', Inr r))"
  using assms by (simp add: login_def field_text_def)

lemma login_invalid:
  assumes "email_error email \<noteq> None \<or> password_error password \<noteq> None"
  shows "login rt idp now email password w = (w, Inr (Errors (email_error email) (password_error password)))"
  using assms by (auto simp add: login_def Let_def)

lemma login_failed:
  assumes "email_error (Some email) = None" "password_error (Some password) = None"
    and "upstream_failed idp email password"
    and "login rt idp now (Some email) (Some password) w = (w', r)"
  shows "jar w' = jar w \<and> session_writes (calls w') = session_writes (calls w)
       \<and> (r = Inr (Message ''Invalid email or password. Please try again.'')
          \<or> r = Inr (Message ''Failed to fetch user profile.'')
          \<or> r = Inr (Message ''An error occurred during login. Please try again.''))"
  using login_try_failed [OF assms(3), of rt now w] assms(4)
  by (auto simp: login_valid [OF assms(1,2)])

lemma login_ok:
  assumes "email_error (Some email) = None" "password_error (Some password) = None"
    and "\<not> upstream_failed idp email password"
  shows "\<exists>authData user.
           auth_login idp email password = Response True (Some authData)
         \<and> auth_profile idp (opt_prop authData ''access_token'') = Response True (Some user)
         \<and> login rt idp now (Some email) (Some password) w =
             (\<lparr>jar = createSession rt now (opt_prop user ''id'') (opt_prop user ''email'')
                       (opt_prop user ''role'') (jar w),
               calls = calls w @ [Fetch_login email password,
                                  Fetch_profile (opt_prop authData ''access_token''),
                                  CreateSession (opt_prop user ''id'') (opt_prop user ''email'')
                                    (opt_prop user ''role''),
                                  Redirect_to ''/dashboard'']\<rparr>,
              Inr (Message ''An error occurred during login. Please try again.''))"
  using login_try_ok [OF assms(3), of rt now w]
  by (auto simp: login_valid [OF assms(1,2)])

lemma sample_valid:
  "email_error (Some ''john@mail.com'') = None"
  "password_error (Some ''wrong'') = None"
  "password_error (Some ''changeme'') = None"
  by code_simp+

lemma sample_denied:
  "upstream_failed handlers ''john@mail.com'' ''wrong''"
  "auth_login handlers ''john@mail.com'' ''wrong'' =
     Response False (Some (Obj [(''message'', Str ''Invalid credentials'')]))"
  "login sample_runtime handlers 1892851200000 (Some ''john@mail.com'') (Some ''wrong'') fresh =
     (\<lparr>jar = Map.empty, calls = [Fetch_login ''john@mail.com'' ''wrong'']\<rparr>,
      Inr (Message ''Invalid email or password. Please try again.''))"
  by (simp_all add: upstream_failed_def response_failed_def handlers_def login_def sample_valid
        field_text_def login_try_def invoke_def fresh_def)

lemma sample_unreachable:
  "upstream_failed unreachable ''john@mail.com'' ''wrong''"
  "auth_login unreachable ''john@mail.com'' ''wrong'' = Rejected"
  "login sample_runtime unreachable 1892851200000 (Some ''john@mail.com'') (Some ''wrong'') fresh =
     (\<lparr>jar = Map.empty, calls = [Fetch_login ''john@mail.com'' ''wrong'']\<rparr>,
      Inr (Message ''An error occurred during login. Please try again.''))"
  by (simp_all add: upstream_failed_def response_failed_def unreachable_def login_def sample_valid
        field_text_def login_try_def invoke_def fresh_def)

lemma sample_accepted:
  "\<not> upstream_failed handlers ''john@mail.com'' ''changeme''"
  "login sample_runtime handlers 1892851200000 (Some ''john@mail.com'') (Some ''changeme'') fresh =
   (\<lparr>jar = session_cookie token_full,
     calls = [Fetch_login ''john@mail.com'' ''changeme'',
              Fetch_profile (Str ''mock-access-token-123''),
              CreateSession (Num 1) (Str ''john@mail.com'') (Str ''customer''),
              Redirect_to ''/dashboard'']\<rparr>,
    Inr (Message ''An error occurred during login. Please try again.''))"
  by (simp_all add: upstream_failed_def response_failed_def opt_prop_def
        login_def sample_valid field_text_def login_try_def login_profile_def login_session_def
        handlers_def get_prop_def invoke_def fresh_def createSession_def sample_runtime_def
        session_cookie_def session_full_def Let_def)

text \<open>
  C3: a validated login attempt in which the credential exchange or the profile request
  fails (rejected, not \<^verbatim>\<open>ok\<close>, or a body that cannot be read) returns one of the three
  error messages, calls \<^verbatim>\<open>createSession\<close> not at all and leaves the cookie store as
  it was, so that a read which gave no session before gives none after. In every attempt
  \<^verbatim>\<open>createSession\<close> is called at most once, and when it is called both requests have
  succeeded and it is the last call before the redirect.
\<close>

theorem failed_login_writes_no_session:
  assumes "login rt idp now (Some email) (Some password) w = (w', r)"
  shows "(email_error (Some email) = None \<and> password_error (Some password) = None
           \<and> upstream_failed idp email password \<longrightarrow>
            (r = Inr (Message ''Invalid email or password. Please try again.'')
             \<or> r = Inr (Message ''Failed to fetch user profile.'')
             \<or> r = Inr (Message ''An error occurred during login. Please try again.''))
          \<and> session_writes (calls w') = session_writes (calls w)
          \<and> jar w' = jar w
          \<and> (\<forall>t. getSession rt t (jar w) = Inr Null \<longrightarrow> getSession rt t (jar w') = Inr Null))
       \<and> session_writes (calls w') \<le> session_writes (calls w) + 1
       \<and> (session_writes (calls w') \<noteq> session_writes (calls w) \<longrightarrow>
            (\<exists>authData user.
               auth_login idp email password = Response True (Some authData)
             \<and> auth_profile idp (opt_prop authData ''access_token'') = Response True (Some user)
             \<and> calls w' = calls w @ [Fetch_login email password,
                                     Fetch_profile (opt_prop authData ''access_token''),
                                     CreateSession (opt_prop user ''id'') (opt_prop user ''email'')
                                       (opt_prop user ''role''),
                                     Redirect_to ''/dashboard'']))"
proof (cases "email_error (Some email) = None \<and> password_error (Some password) = None")
  case False
  with assms login_invalid [of "Some email" "Some password" rt idp now w]
  have "w' = w" by auto
  with False show ?thesis by auto
next
  case valid: True
  show ?thesis
  proof (cases "upstream_failed idp email password")
    case True
    from login_failed [OF _ _ True assms] valid
    show ?thesis by auto
  next
    case False
    from login_ok [OF _ _ False, of rt now w] valid assms
    obtain authData user where
      "auth_login idp email password = Response True (Some authData)"
      "auth_profile idp (opt_prop authData ''access_token'') = Response True (Some user)"
      "calls w' = calls w @ [Fetch_login email password,
                                     Fetch_profile (opt_prop authData ''access_token''),
                                     CreateSession (opt_prop user ''id'') (opt_prop user ''email'')
                                       (opt_prop user ''role''),
                                     Redirect_to ''/dashboard'']"
      by auto
    with False show ?thesis
      by (auto simp: session_writes_def)
  qed
qed

theorem failed_login_writes_no_session_witness:
  "session_writes [Fetch_login ''john@mail.com'' ''wrong''] = session_writes (calls fresh)
   \<and> jar \<lparr>jar = Map.empty, calls = [Fetch_login ''john@mail.com'' ''wrong'']\<rparr> = jar fresh
   \<and> getSession sample_runtime 1800000000000 Map.empty = Inr Null
   \<and> session_writes [Fetch_login ''john@mail.com'' ''changeme'',
                      Fetch_profile (Str ''mock-access-token-123''),
                      CreateSession (Num 1) (Str ''john@mail.com'') (Str ''customer''),
                      Redirect_to ''/dashboard''] = session_writes (calls fresh) + 1
   \<and> (\<exists>authData user.
         auth_login handlers ''john@mail.com'' ''changeme'' = Response True (Some authData)
       \<and> auth_profile handlers (opt_prop authData ''access_token'') = Response True (Some user))"
  using failed_login_writes_no_session [OF sample_denied(3)]
        failed_login_writes_no_session [OF sample_accepted(2)]
        sample_valid sample_denied(1) sample_read(3)
  by (auto simp add: session_writes_def fresh_def)

text \<open>
  C4, evaluated: with the provider of the mock handlers and
  \<^verbatim>\<open>john@mail.com\<close> / \<^verbatim>\<open>changeme\<close>, both requests succeed. \<^verbatim>\<open>login\<close> writes the
  session taken from the profile, expiring seven days after 1892851200000 ms, and calls
  \<^verbatim>\<open>redirect("/dashboard")\<close>, but inside its own \<^verbatim>\<open>try\<close> block: what \<^verbatim>\<open>redirect\<close>
  throws is caught, and the action returns the error message instead of redirecting.
\<close>

theorem successful_login_returns_error_message:
  "login sample_runtime handlers 1892851200000 (Some ''john@mail.com'') (Some ''changeme'') fresh =
   (\<lparr>jar = session_cookie token_full,
     calls = [Fetch_login ''john@mail.com'' ''changeme'',
              Fetch_profile (Str ''mock-access-token-123''),
              CreateSession (Num 1) (Str ''john@mail.com'') (Str ''customer''),
              Redirect_to ''/dashboard'']\<rparr>,
    Inr (Message ''An error occurred during login. Please try again.''))"
  by (rule sample_accepted(2))

theorem successful_login_returns_error_message_witness:
  "snd (login sample_runtime handlers 1892851200000 (Some ''john@mail.com'') (Some ''changeme'') fresh)
     = Inr (Message ''An error occurred during login. Please try again.'')
   \<and> getSession sample_runtime 1892851200001
        (jar (fst (login sample_runtime handlers 1892851200000
                     (Some ''john@mail.com'') (Some ''changeme'') fresh)))
     = Inr session_full
   \<and> opt_prop session_full ''role'' = Str ''customer''"
  using successful_login_returns_error_message
  by (simp add: getSession_def getSession_try_def cookie_get_def session_cookie_def
        sample_runtime_def token_full_def session_full_def get_prop_def opt_prop_def
        new_Date_def date_lt_def)

text \<open>
  C5, as stated, fails: the same validated credentials give one message when the provider
  answers with status 401 and another when it cannot be reached.
\<close>

theorem denied_and_unreachable_messages_differ:
  "snd (login sample_runtime handlers 1892851200000 (Some ''john@mail.com'') (Some ''wrong'') fresh)
     = Inr (Message ''Invalid email or password. Please try again.'')
   \<and> snd (login sample_runtime unreachable 1892851200000 (Some ''john@mail.com'') (Some ''wrong'') fresh)
     = Inr (Message ''An error occurred during login. Please try again.'')
   \<and> snd (login sample_runtime handlers 1892851200000 (Some ''john@mail.com'') (Some ''wrong'') fresh)
     \<noteq> snd (login sample_runtime unreachable 1892851200000 (Some ''john@mail.com'') (Some ''wrong'') fresh)"
  by (simp add: sample_denied(3) sample_unreachable(3))

text \<open>
  C5, amended: for a validated attempt, every response to the credential exchange that is
  not \<^verbatim>\<open>ok\<close> gives the message "Invalid email or password. Please try again.",
  whatever its body, and a rejected \<^verbatim>\<open>fetch\<close> gives "An error occurred during login.
  Please try again.".
\<close>

theorem exchange_failure_messages:
  assumes "email_error (Some email) = None" and "password_error (Some password) = None"
  shows "(\<forall>body. auth_login idp email password = Response False body \<longrightarrow>
            snd (login rt idp now (Some email) (Some password) w)
              = Inr (Message ''Invalid email or password. Please try again.''))
       \<and> (auth_login idp email password = Rejected \<longrightarrow>
            snd (login rt idp now (Some email) (Some password) w)
              = Inr (Message ''An error occurred during login. Please try again.''))"
  by (simp add: login_valid [OF assms] login_try_def)

theorem exchange_failure_messages_witness:
  "snd (login sample_runtime handlers 1892851200000 (Some ''john@mail.com'') (Some ''wrong'') fresh)
     = Inr (Message ''Invalid email or password. Please try again.'')
   \<and> snd (login sample_runtime unreachable 1892851200000 (Some ''john@mail.com'') (Some ''wrong'') fresh)
     = Inr (Message ''An error occurred during login. Please try again.'')"
  using exchange_failure_messages [OF sample_valid(1,2), of handlers sample_runtime 1892851200000 fresh]
        exchange_failure_messages [OF sample_valid(1,2), of unreachable sample_runtime 1892851200000 fresh]
        sample_denied(2) sample_unreachable(2)
  by simp

section \<open>The gatekeeper\<close>





lemma middleware_unfold:
  assumes "middleware_session rt now (cookies req ''session'') = Inr session"
  shows "middleware rt now req =
     Inr (if (startsWith (pathname req) ''/dashboard'' \<or> startsWith (pathname req) ''/admin'')
             \<and> \<not> truthy (opt_prop session ''userId'')
          then Redirect ''/login'' [(''redirect'', pathname req)]
          else if pathname req = ''/login'' \<and> truthy (opt_prop session ''userId'')
          then Redirect ''/dashboard'' []
          else if startsWith (pathname req) ''/admin'' \<and> opt_prop session ''role'' \<noteq> Str ''admin''
          then Redirect ''/dashboard'' []
          else Next)"
  using assms by (simp add: middleware_def protectedRoutes_def publicRoutes_def Let_def)






text \<open>
  C10: a path that starts with neither \<^verbatim>\<open>/dashboard\<close> nor \<^verbatim>\<open>/admin\<close> and is not
  \<^verbatim>\<open>/login\<close> is let through, whatever the cookie holds.
\<close>
theorem unlisted_path_is_allowed:
  assumes "\<not> startsWith (pathname req) ''/dashboard''"
    and "\<not> startsWith (pathname req) ''/admin''"
    and "pathname req \<noteq> ''/login''"
  shows "middleware rt now req = Inr Next"
proof -
  obtain session where "middleware_session rt now (cookies req ''session'') = Inr session"
    using middleware_session_total by blast
  from middleware_unfold [OF this] assms show ?thesis by simp
qed

theorem unlisted_path_is_allowed_witness:
  "middleware sample_runtime 1900000000000 \<lparr>pathname = ''/profile'', cookies = Map.empty\<rparr> = Inr Next
   \<and> middleware sample_runtime 1800000000000
        \<lparr>pathname = ''/'', cookies = [''session'' \<mapsto> token_full]\<rparr> = Inr Next"
  using unlisted_path_is_allowed
          [of "\<lparr>pathname = ''/profile'', cookies = Map.empty\<rparr>" sample_runtime 1900000000000]
        unlisted_path_is_allowed
          [of "\<lparr>pathname = ''/'', cookies = [''session'' \<mapsto> token_full]\<rparr>"
              sample_runtime 1800000000000]
  by (simp add: startsWith_def)

lemma prefix_admin:
  "prefix ''/admin'' p \<Longrightarrow> prefix ''/'' p \<and> \<not> prefix ''/dashboard'' p \<and> \<not> prefix ''/login'' p"
  by (auto simp: prefix_def)

lemma prefix_dashboard:
  "prefix ''/dashboard'' p \<Longrightarrow> prefix ''/'' p \<and> \<not> prefix ''/admin'' p \<and> \<not> prefix ''/login'' p"
  by (auto simp: prefix_def)

lemma prefix_login: "prefix ''/login'' p \<Longrightarrow> prefix ''/'' p"
  by (auto simp: prefix_def)

lemma longest_entry_None: "longest_entry xs = None \<longleftrightarrow> xs = []"
  by (cases xs) (auto split: option.splits)

lemma longest_entry_is_longest:
  "longest_entry xs = Some e \<Longrightarrow> e \<in> set xs \<and> (\<forall>x \<in> set xs. length (fst x) \<le> length (fst e))"
proof (induction xs arbitrary: e)
  case Nil
  then show ?case by simp
next
  case (Cons x xs)
  show ?case
  proof (cases "longest_entry xs")
    case None
    then have "xs = []" by (simp add: longest_entry_None)
    with Cons.prems show ?thesis by simp
  next
    case (Some best)
    from Cons.IH [OF Some]
    have b: "best \<in> set xs" "\<forall>y \<in> set xs. length (fst y) \<le> length (fst best)"
      by simp_all
    show ?thesis
    proof (cases "length (fst best) > length (fst x)")
      case True
      with Some Cons.prems have "e = best" by simp
      with b True show ?thesis by auto
    next
      case False
      with Some Cons.prems have "e = x" by simp
      with b False show ?thesis by fastforce
    qed
  qed
qed

lemma classify_route_table:
  "classify route_table path =
     (if prefix ''/admin'' path then Protected_roles [''admin'']
      else if prefix ''/dashboard'' path then Protected
      else Public)"
proof -
  consider (a) "prefix ''/admin'' path" | (d) "prefix ''/dashboard'' path"
    | (l) "prefix ''/login'' path" "\<not> prefix ''/admin'' path" "\<not> prefix ''/dashboard'' path"
    | (r) "prefix ''/'' path"  "\<not> prefix ''/login'' path" "\<not> prefix ''/admin'' path" "\<not> prefix ''/dashboard'' path"
    | (n) "\<not> prefix ''/'' path"  "\<not> prefix ''/login'' path" "\<not> prefix ''/admin'' path" "\<not> prefix ''/dashboard'' path"
    by blast
  then show ?thesis
  proof cases
    case a
    with prefix_admin [OF a] show ?thesis
      by (simp add: classify_def matching_entries_def route_table_def)
  next
    case d
    with prefix_dashboard [OF d] show ?thesis
      by (simp add: classify_def matching_entries_def route_table_def)
  next
    case l
    with prefix_login [OF l(1)] show ?thesis
      by (simp add: classify_def matching_entries_def route_table_def)
  next
    case r
    then show ?thesis by (simp add: classify_def matching_entries_def route_table_def)
  next
    case n
    then show ?thesis by (simp add: classify_def matching_entries_def route_table_def)
  qed
qed

lemma middleware_decide:
  assumes "middleware_session rt now (cookies req ''session'') = Inr session"
  shows "middleware rt now req =
         Inr (decide (classify route_table (pathname req)) (pathname req)
                (truthy (opt_prop session ''userId'')) (opt_prop session ''role''))"
proof -
  have "pathname req = ''/login'' \<Longrightarrow> \<not> prefix ''/admin'' (pathname req) \<and> \<not> prefix ''/dashboard'' (pathname req)"
    by auto
  with prefix_admin [of "pathname req"] show ?thesis
    by (auto simp add: middleware_unfold [OF assms] classify_route_table decide_def startsWith_def
        array_includes_def)
qed

text \<open>
  C7: for a path that more than one entry of the route table matches, the middleware
  answers as the decision table does for the class of a matching entry of greatest length,
  which is the class \<open>classify\<close> computes.
\<close>
theorem longest_matching_prefix_decides:
  assumes "1 < length (matching_entries route_table (pathname req))"
    and "middleware_session rt now (cookies req ''session'') = Inr session"
  shows "\<exists>entry \<in> set (matching_entries route_table (pathname req)).
           (\<forall>other \<in> set (matching_entries route_table (pathname req)).
              length (fst other) \<le> length (fst entry))
         \<and> classify route_table (pathname req) = snd entry
         \<and> middleware rt now req =
             Inr (decide (snd entry) (pathname req)
                    (truthy (opt_prop session ''userId'')) (opt_prop session ''role''))"
proof -
  from assms(1) have "matching_entries route_table (pathname req) \<noteq> []" by auto
  then obtain entry where e: "longest_entry (matching_entries route_table (pathname req)) = Some entry"
    using longest_entry_None [of "matching_entries route_table (pathname req)"] by auto
  then have c: "classify route_table (pathname req) = snd entry"
    by (simp add: classify_def)
  from longest_entry_is_longest [OF e] middleware_decide [OF assms(2)] c
  show ?thesis by auto
qed

lemma sample_matching:
  "matching_entries route_table ''/admin/users'' =
     [(''/'', Public), (''/admin'', Protected_roles [''admin''])]"
  by (simp add: matching_entries_def route_table_def)

lemma sample_sessions:
  "middleware_session sample_runtime 1800000000000 (Some token_full) = Inr session_full"
  "middleware_session sample_runtime 1800000000000 (Some token_no_expiry) = Inr session_no_expiry"
  by (simp_all add: middleware_session_def middleware_try_def sample_runtime_def
        token_full_def token_no_expiry_def session_full_def session_no_expiry_def
        get_prop_def truthy_def new_Date_def date_lt_def)

theorem longest_matching_prefix_decides_witness:
  "1 < length (matching_entries route_table ''/admin/users'')
   \<and> classify route_table ''/admin/users'' = Protected_roles [''admin'']
   \<and> middleware sample_runtime 1800000000000
        \<lparr>pathname = ''/admin/users'', cookies = [''session'' \<mapsto> token_full]\<rparr>
      = Inr (Redirect ''/dashboard'' [])
   \<and> middleware sample_runtime 1800000000000
        \<lparr>pathname = ''/admin/users'', cookies = [''session'' \<mapsto> token_no_expiry]\<rparr>
      = Inr Next"
  using longest_matching_prefix_decides
          [of "\<lparr>pathname = ''/admin/users'', cookies = [''session'' \<mapsto> token_full]\<rparr>"
              sample_runtime 1800000000000 session_full]
        longest_matching_prefix_decides
          [of "\<lparr>pathname = ''/admin/users'', cookies = [''session'' \<mapsto> token_no_expiry]\<rparr>"
              sample_runtime 1800000000000 session_no_expiry]
        sample_matching sample_sessions
  by (auto simp add: decide_def array_includes_def opt_prop_def truthy_def
        session_full_def session_no_expiry_def)

section \<open>The guard and logging out\<close>






text \<open>
  C9: \<^verbatim>\<open>logout()\<close>, from every state, deletes the session cookie and then throws the
  redirect to \<^verbatim>\<open>/login\<close>, nothing else; a read after it gives no session; deleting
  twice is deleting once, and deleting an absent session changes nothing.
\<close>
theorem logout_always_ends_the_session:
  "snd (logout w) = Inl (NEXT_REDIRECT ''/login'')
   \<and> jar (fst (logout w)) = deleteSession (jar w)
   \<and> calls (fst (logout w)) = calls w @ [DeleteSession, Redirect_to ''/login'']
   \<and> cookie_get (jar (fst (logout w))) ''session'' = None
   \<and> getSession rt now (jar (fst (logout w))) = Inr Null
   \<and> deleteSession (deleteSession store) = deleteSession store
   \<and> (cookie_get store ''session'' = None \<longrightarrow> deleteSession store = store)"
  by (auto simp add: logout_def invoke_def deleteSession_def cookie_get_def getSession_def Let_def)

lemma no_cookie: "cookie_get Map.empty ''session'' = None"
  by (simp add: cookie_get_def)

theorem logout_always_ends_the_session_witness:
  "snd (logout fresh) = Inl (NEXT_REDIRECT ''/login'')
   \<and> getSession sample_runtime 1800000000000 (jar (fst (logout fresh))) = Inr Null
   \<and> getSession sample_runtime 1800000000000
        (jar (fst (logout \<lparr>jar = session_cookie token_full, calls = []\<rparr>))) = Inr Null
   \<and> deleteSession Map.empty = (Map.empty :: cookie_store)"
  using logout_always_ends_the_session [of fresh sample_runtime 1800000000000 Map.empty]
    logout_always_ends_the_session
      [of "\<lparr>jar = session_cookie token_full, calls = []\<rparr>" sample_runtime 1800000000000 Map.empty]
    no_cookie
  by blast

end
